theory Spec2Isabelle
  imports Main
begin

section \<open>Data model\<close>

text \<open>
  The enumeration \<open>TimerState\<close> of \<open>timer/states.py\<close>.
\<close>

datatype TimerState = IDLE | WORK | SHORT_BREAK | LONG_BREAK | PAUSED

text \<open>
  The three Qt signals of \<open>PomodoroTimer\<close>, with the argument a slot receives. A signal
  is delivered synchronously to the connected slots; none of the slots of the repository
  calls back into the timer, so an emission is recorded as one entry appended to the log
  \<open>emitted\<close>.
\<close>

datatype signal =
    state_changed TimerState
  | time_changed int
  | session_completed TimerState

text \<open>
  The only exception the timer core can raise: Python's \<open>%\<close> with a zero divisor in
  \<open>start_break\<close>.
\<close>

datatype py_error = ZeroDivisionError

text \<open>
  The part of \<open>BaseConfig\<close> (\<open>config/provider.py\<close>) that the timer core reads.
  Python integers are unbounded, hence \<open>int\<close>.
\<close>

record config =
  work_duration_seconds :: int
  short_break_duration_seconds :: int
  long_break_duration_seconds :: int
  sessions_until_long_break :: int

text \<open>
  The attributes of \<open>PomodoroTimer\<close> (\<open>timer/core.py\<close>). \<open>qt_timer_active\<close> is the
  running flag of the \<open>QTimer\<close> (\<open>start()\<close> sets it, \<open>stop()\<close> clears it).
\<close>

record PomodoroTimer =
  current_state :: TimerState
  previous_state :: TimerState
  remaining_seconds :: int
  current_session :: int
  qt_timer_active :: bool
  emitted :: "signal list"

text \<open>\<open>PomodoroTimer.__init__\<close>.\<close>

definition PomodoroTimer_init :: PomodoroTimer where
  "PomodoroTimer_init =
     \<lparr>current_state = IDLE, previous_state = IDLE, remaining_seconds = 0,
      current_session = 1, qt_timer_active = False, emitted = []\<rparr>"

section \<open>The timer core\<close>

text \<open>
  \<open>time_changed\<close> is declared \<open>pyqtSignal(int)\<close>: its argument crosses into Qt as a
  32-bit signed C \<open>int\<close>, so a slot receives the Python integer reduced to that range.
  The other two signals carry a member of \<open>TimerState\<close>, a Python object passed as it is.
\<close>

definition c_int :: "int \<Rightarrow> int" where
  "c_int v = (v + 2147483648) mod 4294967296 - 2147483648"

definition c_int_range :: "int \<Rightarrow> bool" where
  "c_int_range v \<longleftrightarrow> - 2147483648 \<le> v \<and> v \<le> 2147483647"

fun marshal :: "signal \<Rightarrow> signal" where
  "marshal (time_changed v) = time_changed (c_int v)"
| "marshal (state_changed st) = state_changed st"
| "marshal (session_completed st) = session_completed st"

text \<open>\<open>signal.emit(...)\<close>.\<close>

definition emit :: "signal \<Rightarrow> PomodoroTimer \<Rightarrow> PomodoroTimer" where
  "emit sg t = t\<lparr>emitted := emitted t @ [marshal sg]\<rparr>"

text \<open>\<open>_change_state\<close>: the signal fires only when the state really changes.\<close>

definition change_state :: "TimerState \<Rightarrow> PomodoroTimer \<Rightarrow> PomodoroTimer" where
  "change_state new_state t =
     (if new_state \<noteq> current_state t
      then emit (state_changed new_state) (t\<lparr>current_state := new_state\<rparr>)
      else t)"

text \<open>\<open>_start_timer\<close>.\<close>

definition start_timer :: "PomodoroTimer \<Rightarrow> PomodoroTimer" where
  "start_timer t = emit (time_changed (remaining_seconds t)) (t\<lparr>qt_timer_active := True\<rparr>)"

definition start_work_session :: "config \<Rightarrow> PomodoroTimer \<Rightarrow> PomodoroTimer" where
  "start_work_session cfg t =
     (if current_state t \<noteq> IDLE then t
      else start_timer
             ((change_state WORK t)\<lparr>remaining_seconds := work_duration_seconds cfg\<rparr>))"

text \<open>
  \<open>start_break\<close>. Python's \<open>and\<close> evaluates \<open>completed_sessions % n\<close> only when
  \<open>completed_sessions > 0\<close>, and raises there when \<open>n\<close> is zero. For a non-zero divisor
  Python's \<open>%\<close> is the floored remainder, which is \<open>mod\<close> on \<open>int\<close>.
\<close>

definition start_break :: "config \<Rightarrow> PomodoroTimer \<Rightarrow> py_error + PomodoroTimer" where
  "start_break cfg t =
     (if current_state t \<noteq> WORK then Inr t
      else
        let completed_sessions = current_session t - 1 in
        if completed_sessions > 0 \<and> sessions_until_long_break cfg = 0
        then Inl ZeroDivisionError
        else
          let is_long_break =
                (completed_sessions > 0 \<and>
                 completed_sessions mod sessions_until_long_break cfg = 0) in
          if is_long_break
          then Inr (start_timer
                 ((change_state LONG_BREAK t)
                    \<lparr>remaining_seconds := long_break_duration_seconds cfg\<rparr>))
          else Inr (start_timer
                 ((change_state SHORT_BREAK t)
                    \<lparr>remaining_seconds := short_break_duration_seconds cfg\<rparr>)))"

definition pause :: "PomodoroTimer \<Rightarrow> PomodoroTimer" where
  "pause t =
     (if current_state t \<in> set [WORK, SHORT_BREAK, LONG_BREAK]
      then change_state PAUSED
             (t\<lparr>qt_timer_active := False, previous_state := current_state t\<rparr>)
      else t)"

definition resume :: "PomodoroTimer \<Rightarrow> PomodoroTimer" where
  "resume t =
     (if current_state t = PAUSED
      then start_timer (change_state (previous_state t) t)
      else t)"

definition reset :: "PomodoroTimer \<Rightarrow> PomodoroTimer" where
  "reset t =
     (change_state IDLE (t\<lparr>qt_timer_active := False\<rparr>))
       \<lparr>previous_state := IDLE, remaining_seconds := 0, current_session := 1\<rparr>"

text \<open>\<open>_timer_finished\<close>. In any other state than the three counting ones nothing
  happens beyond stopping the \<open>QTimer\<close>.\<close>

definition timer_finished :: "config \<Rightarrow> PomodoroTimer \<Rightarrow> py_error + PomodoroTimer" where
  "timer_finished cfg t =
     (let t1 = t\<lparr>qt_timer_active := False\<rparr>;
          cur = current_state t1 in
      if cur = WORK
      then start_break cfg
             (emit (session_completed cur) (t1\<lparr>current_session := current_session t1 + 1\<rparr>))
      else if cur \<in> set [SHORT_BREAK, LONG_BREAK]
      then Inr (emit (session_completed cur) (change_state IDLE t1))
      else Inr t1)"

text \<open>\<open>_tick\<close>, the slot of the \<open>QTimer\<close>'s \<open>timeout\<close> signal.\<close>

definition tick :: "config \<Rightarrow> PomodoroTimer \<Rightarrow> py_error + PomodoroTimer" where
  "tick cfg t =
     (let t1 = t\<lparr>remaining_seconds := remaining_seconds t - 1\<rparr>;
          t2 = emit (time_changed (remaining_seconds t1)) t1 in
      if remaining_seconds t2 \<le> 0 then timer_finished cfg t2 else Inr t2)"

text \<open>One second of wall-clock time: the \<open>QTimer\<close> calls \<open>_tick\<close> only while it is
  active.\<close>

definition timeout :: "config \<Rightarrow> PomodoroTimer \<Rightarrow> py_error + PomodoroTimer" where
  "timeout cfg t = (if qt_timer_active t then tick cfg t else Inr t)"

text \<open>\<open>n\<close> seconds of wall-clock time with no command in between.\<close>

fun timeouts :: "config \<Rightarrow> nat \<Rightarrow> PomodoroTimer \<Rightarrow> py_error + PomodoroTimer" where
  "timeouts cfg 0 t = Inr t"
| "timeouts cfg (Suc n) t =
     (case timeout cfg t of Inl e \<Rightarrow> Inl e | Inr t' \<Rightarrow> timeouts cfg n t')"

text \<open>The states in which a countdown is running.\<close>

definition counting :: "TimerState \<Rightarrow> bool" where
  "counting st \<longleftrightarrow> st = WORK \<or> st = SHORT_BREAK \<or> st = LONG_BREAK"

text \<open>
  \<open>BreakOverlay.extend_break\<close> (\<open>gui/overlay.py\<close>) is the one place outside the core
  that writes a timer attribute: it adds 300 seconds and emits \<open>time_changed\<close> itself.
\<close>

definition extend_break :: "PomodoroTimer \<Rightarrow> PomodoroTimer" where
  "extend_break t =
     (let extension_seconds = 300;
          t1 = t\<lparr>remaining_seconds := remaining_seconds t + extension_seconds\<rparr> in
      emit (time_changed (remaining_seconds t1)) t1)"

section \<open>Display formatting\<close>

text \<open>
  Python's format specification \<open>02d\<close>: the decimal digits of the number, padded with
  zeros on the left to a width of at least two; the sign of a negative number counts
  towards the width and stays in front of the padding.
\<close>

definition digit_char :: "nat \<Rightarrow> char" where
  "digit_char d = ''0123456789'' ! d"

fun decimal :: "nat \<Rightarrow> string" where
  "decimal n = (if n < 10 then [digit_char n] else decimal (n div 10) @ [digit_char (n mod 10)])"

declare decimal.simps [simp del]

definition zfill :: "nat \<Rightarrow> string \<Rightarrow> string" where
  "zfill w s = replicate (w - length s) (CHR ''0'') @ s"

definition format_02d :: "int \<Rightarrow> string" where
  "format_02d n =
     (if n < 0 then CHR ''-'' # zfill 1 (decimal (nat (- n)))
      else zfill 2 (decimal (nat n)))"

text \<open>\<open>get_time_display\<close>. Python's \<open>//\<close> and \<open>%\<close> by 60 are floored, as \<open>div\<close> and
  \<open>mod\<close> on \<open>int\<close> are.\<close>

definition get_time_display :: "PomodoroTimer \<Rightarrow> string" where
  "get_time_display t =
     (let minutes = remaining_seconds t div 60;
          seconds = remaining_seconds t mod 60 in
      format_02d minutes @ '':'' @ format_02d seconds)"

text \<open>
  Reading a string of decimal digits back as a number; the specification side of the
  display format.
\<close>

definition digit_of :: "char \<Rightarrow> nat" where
  "digit_of c = of_char c - 48"

definition is_digit :: "char \<Rightarrow> bool" where
  "is_digit c \<longleftrightarrow> c \<in> set ''0123456789''"

definition dec_value :: "string \<Rightarrow> nat" where
  "dec_value s = foldl (\<lambda>a c. 10 * a + digit_of c) 0 s"

text \<open>
  A field of the display that shows the number \<open>v\<close> zero-padded to two digits: decimal
  digits only, reading as \<open>v\<close>, at least two of them, and no leading zero beyond the
  padding to two.
\<close>

definition two_digit_field :: "int \<Rightarrow> string \<Rightarrow> bool" where
  "two_digit_field v s \<longleftrightarrow>
     list_all is_digit s \<and> int (dec_value s) = v \<and> 2 \<le> length s \<and>
     (2 < length s \<longrightarrow> hd s \<noteq> CHR ''0'')"

section \<open>The timer controller\<close>

datatype log_level = DEBUG | WARNING

text \<open>\<open>str\<close> of a member of the enumeration, as the f-strings of the controller's
  warnings print it.\<close>

fun TimerState_str :: "TimerState \<Rightarrow> string" where
  "TimerState_str IDLE = ''TimerState.IDLE''"
| "TimerState_str WORK = ''TimerState.WORK''"
| "TimerState_str SHORT_BREAK = ''TimerState.SHORT_BREAK''"
| "TimerState_str LONG_BREAK = ''TimerState.LONG_BREAK''"
| "TimerState_str PAUSED = ''TimerState.PAUSED''"

text \<open>
  \<open>TimerController\<close> (\<open>timer/controller.py\<close>): the timer it drives and what it wrote to
  its logger.
\<close>

record TimerController =
  timer :: PomodoroTimer
  logger :: "(log_level \<times> string) list"

definition log_msg :: "log_level \<Rightarrow> string \<Rightarrow> TimerController \<Rightarrow> TimerController" where
  "log_msg lvl msg c = c\<lparr>logger := logger c @ [(lvl, msg)]\<rparr>"

definition start_or_resume :: "config \<Rightarrow> TimerController \<Rightarrow> TimerController" where
  "start_or_resume cfg c =
     (let state = current_state (timer c) in
      if state = IDLE
      then (let c1 = log_msg DEBUG ''Starting work session from controller'' c in
            c1\<lparr>timer := start_work_session cfg (timer c1)\<rparr>)
      else if state = PAUSED
      then (let c1 = log_msg DEBUG ''Resuming timer from controller'' c in
            c1\<lparr>timer := resume (timer c1)\<rparr>)
      else log_msg WARNING (''Cannot start/resume from state: '' @ TimerState_str state) c)"

definition pause_or_resume :: "TimerController \<Rightarrow> TimerController" where
  "pause_or_resume c =
     (let state = current_state (timer c) in
      if state \<in> set [WORK, SHORT_BREAK, LONG_BREAK]
      then (let c1 = log_msg DEBUG ''Pausing timer from controller'' c in
            c1\<lparr>timer := pause (timer c1)\<rparr>)
      else if state = PAUSED
      then (let c1 = log_msg DEBUG ''Resuming timer from controller'' c in
            c1\<lparr>timer := resume (timer c1)\<rparr>)
      else log_msg WARNING (''Cannot pause/resume from state: '' @ TimerState_str state) c)"

definition controller_reset :: "TimerController \<Rightarrow> TimerController" where
  "controller_reset c =
     (let c1 = log_msg DEBUG ''Resetting timer from controller'' c in
      c1\<lparr>timer := reset (timer c1)\<rparr>)"

section \<open>Runs of the timer\<close>

text \<open>
  Everything that can happen to a timer: a call of one of its methods, a call of
  \<open>_tick\<close> (the \<open>QTimer\<close>'s timeouts are the calls of \<open>_tick\<close> made while it is active,
  so allowing \<open>_tick\<close> at any moment covers them), an intent routed through a controller,
  and the overlay's extension of a break.
\<close>

datatype command =
    StartWorkSession | StartBreak | Pause | Resume | Reset | Tick
  | StartOrResume | PauseOrResume | ExtendBreak

fun step :: "config \<Rightarrow> command \<Rightarrow> PomodoroTimer \<Rightarrow> py_error + PomodoroTimer" where
  "step cfg StartWorkSession t = Inr (start_work_session cfg t)"
| "step cfg StartBreak t = start_break cfg t"
| "step cfg Pause t = Inr (pause t)"
| "step cfg Resume t = Inr (resume t)"
| "step cfg Reset t = Inr (reset t)"
| "step cfg Tick t = tick cfg t"
| "step cfg StartOrResume t = Inr (timer (start_or_resume cfg \<lparr>timer = t, logger = []\<rparr>))"
| "step cfg PauseOrResume t = Inr (timer (pause_or_resume \<lparr>timer = t, logger = []\<rparr>))"
| "step cfg ExtendBreak t = Inr (extend_break t)"

text \<open>A run stops at the first exception, as the Python program would.\<close>

fun run :: "config \<Rightarrow> PomodoroTimer \<Rightarrow> command list \<Rightarrow> py_error + PomodoroTimer" where
  "run cfg t [] = Inr t"
| "run cfg t (c # cs) =
     (case step cfg c t of Inl e \<Rightarrow> Inl e | Inr t' \<Rightarrow> run cfg t' cs)"

text \<open>How many times \<open>session_completed(WORK)\<close> has been emitted.\<close>

definition completed_work :: "PomodoroTimer \<Rightarrow> nat" where
  "completed_work t = length (filter (\<lambda>sg. sg = session_completed WORK) (emitted t))"

text \<open>
  The property of a timer that the pause/resume pair relies on: while the timer is
  paused, the remembered state is one of the three counting states.
\<close>

definition paused_inv :: "PomodoroTimer \<Rightarrow> bool" where
  "paused_inv t \<longleftrightarrow> (current_state t = PAUSED \<longrightarrow> counting (previous_state t))"

section \<open>Concrete timers\<close>

text \<open>
  A test-mode configuration (\<open>InMemoryConfig\<close>) with one-second phases and a long break
  after every fourth work session, and timers it leads to from the initial one.
\<close>

definition ex_cfg :: config where
  "ex_cfg = \<lparr>work_duration_seconds = 1, short_break_duration_seconds = 1,
             long_break_duration_seconds = 1, sessions_until_long_break = 4\<rparr>"


text \<open>After \<open>start_work_session\<close>.\<close>

definition ex_work :: PomodoroTimer where
  "ex_work =
     \<lparr>current_state = WORK, previous_state = IDLE, remaining_seconds = 1,
      current_session = 1, qt_timer_active = True,
      emitted = [state_changed WORK, time_changed 1]\<rparr>"

text \<open>After the tick that ends the first work session.\<close>

definition ex_short :: PomodoroTimer where
  "ex_short =
     \<lparr>current_state = SHORT_BREAK, previous_state = IDLE, remaining_seconds = 1,
      current_session = 2, qt_timer_active = True,
      emitted = [state_changed WORK, time_changed 1, time_changed 0,
                 session_completed WORK, state_changed SHORT_BREAK, time_changed 1]\<rparr>"

text \<open>After \<open>start_work_session\<close> and \<open>pause\<close>.\<close>

definition ex_paused :: PomodoroTimer where
  "ex_paused =
     \<lparr>current_state = PAUSED, previous_state = WORK, remaining_seconds = 1,
      current_session = 1, qt_timer_active = False,
      emitted = [state_changed WORK, time_changed 1, state_changed PAUSED]\<rparr>"

text \<open>After three full pomodoros and a fourth \<open>start_work_session\<close>.\<close>

definition ex_work4 :: PomodoroTimer where
  "ex_work4 =
     \<lparr>current_state = WORK, previous_state = IDLE, remaining_seconds = 1,
      current_session = 4, qt_timer_active = True,
      emitted =
        [state_changed WORK, time_changed 1, time_changed 0,
         session_completed WORK, state_changed SHORT_BREAK,
         time_changed 1, time_changed 0, state_changed IDLE,
         session_completed SHORT_BREAK, state_changed WORK,
         time_changed 1, time_changed 0, session_completed WORK,
         state_changed SHORT_BREAK, time_changed 1, time_changed 0,
         state_changed IDLE, session_completed SHORT_BREAK,
         state_changed WORK, time_changed 1, time_changed 0,
         session_completed WORK, state_changed SHORT_BREAK,
         time_changed 1, time_changed 0, state_changed IDLE,
         session_completed SHORT_BREAK, state_changed WORK,
         time_changed 1]\<rparr>"

text \<open>A work session with one minute and five seconds left.\<close>

definition ex_65 :: PomodoroTimer where
  "ex_65 =
     \<lparr>current_state = WORK, previous_state = IDLE, remaining_seconds = 65,
      current_session = 1, qt_timer_active = True,
      emitted = [state_changed WORK, time_changed 65]\<rparr>"

text \<open>A work session of the longest configurable duration, 120 minutes, just started.\<close>

definition ex_7200 :: PomodoroTimer where
  "ex_7200 =
     \<lparr>current_state = WORK, previous_state = IDLE, remaining_seconds = 7200,
      current_session = 1, qt_timer_active = True,
      emitted = [state_changed WORK, time_changed 7200]\<rparr>"

text \<open>One full pomodoro under \<open>ex_cfg\<close>: start, the tick that ends the work session and
  starts the break, the tick that ends the break.\<close>

definition pomodoro_cycle :: "command list" where
  "pomodoro_cycle = [StartWorkSession, Tick, Tick]"

section \<open>Basic facts\<close>

lemmas core_defs =
  emit_def change_state_def start_timer_def start_work_session_def start_break_def
  pause_def resume_def reset_def timer_finished_def tick_def timeout_def

lemmas all_defs =
  core_defs extend_break_def start_or_resume_def pause_or_resume_def log_msg_def

text \<open>Within the range of a C \<open>int\<close> the argument of \<open>time_changed\<close> arrives unchanged.\<close>

lemma c_int_id [simp]: "- 2147483648 \<le> v \<Longrightarrow> v \<le> 2147483647 \<Longrightarrow> c_int v = v"
  by (simp add: c_int_def)


text \<open>What a slot of \<open>time_changed\<close> receives always lies in the range of a C \<open>int\<close>.\<close>

lemma c_int_bounds: "c_int_range (c_int v)"
proof -
  have "0 \<le> (v + 2147483648) mod 4294967296" and "(v + 2147483648) mod 4294967296 < 4294967296"
    by simp_all
  then show ?thesis
    by (simp add: c_int_def c_int_range_def)
qed

section \<open>Reset\<close>

text \<open>
  Claim C5. From every state, \<open>reset\<close> returns a timer with \<open>current_state = IDLE\<close>,
  \<open>previous_state = IDLE\<close>, \<open>remaining_seconds = 0\<close> and \<open>current_session = 1\<close>.
  \<open>reset\<close> is a total function into plain timers: it has no error result, so it
  cannot fail. The \<open>QTimer\<close> is stopped as well.
\<close>

theorem reset_yields_initial_attributes:
  "current_state (reset t) = IDLE \<and>
   previous_state (reset t) = IDLE \<and>
   remaining_seconds (reset t) = 0 \<and>
   current_session (reset t) = 1 \<and>
   \<not> qt_timer_active (reset t)"
  by (simp add: reset_def change_state_def emit_def)

section \<open>Pause and resume\<close>

text \<open>
  A timer whose \<open>QTimer\<close> is stopped is not touched by the passing of time.
\<close>

lemma timeouts_stopped: "\<not> qt_timer_active t \<Longrightarrow> timeouts cfg n t = Inr t"
  by (induction n) (simp_all add: timeout_def)

text \<open>
  Claim C4. From a timer in WORK, \<open>SHORT_BREAK\<close> or \<open>LONG_BREAK\<close>, \<open>pause\<close> leaves
  \<open>remaining_seconds\<close> and \<open>current_session\<close> as they are and stops the \<open>QTimer\<close>, so
  any number of seconds may pass while the timer is paused without changing it; \<open>resume\<close>
  after that gives back the state the timer had, with \<open>remaining_seconds\<close> still at its
  value at the time of the pause and \<open>current_session\<close> unchanged, and restarts the
  \<open>QTimer\<close>.
\<close>

theorem pause_resume_roundtrip:
  assumes "current_state t \<in> {WORK, SHORT_BREAK, LONG_BREAK}"
  shows "current_state (pause t) = PAUSED \<and>
         previous_state (pause t) = current_state t \<and>
         remaining_seconds (pause t) = remaining_seconds t \<and>
         current_session (pause t) = current_session t \<and>
         current_state (resume (pause t)) = current_state t \<and>
         remaining_seconds (resume (pause t)) = remaining_seconds t \<and>
         current_session (resume (pause t)) = current_session t \<and>
         \<not> qt_timer_active (pause t) \<and>
         timeouts cfg n (pause t) = Inr (pause t) \<and>
         (\<exists>p. timeouts cfg n (pause t) = Inr p \<and>
            current_state p = PAUSED \<and>
            remaining_seconds p = remaining_seconds t \<and>
            current_session p = current_session t \<and>
            current_state (resume p) = current_state t \<and>
            remaining_seconds (resume p) = remaining_seconds t \<and>
            current_session (resume p) = current_session t \<and>
            qt_timer_active (resume p))"
proof -
  from assms have a: "current_state (pause t) = PAUSED"
    and b: "previous_state (pause t) = current_state t"
    and c: "remaining_seconds (pause t) = remaining_seconds t"
    and d: "current_session (pause t) = current_session t"
    and e: "\<not> qt_timer_active (pause t)"
    by (auto simp: pause_def change_state_def emit_def)
  from assms have f: "current_state (resume (pause t)) = current_state t"
    and g: "remaining_seconds (resume (pause t)) = remaining_seconds t"
    and h: "current_session (resume (pause t)) = current_session t"
    and i: "qt_timer_active (resume (pause t))"
    by (auto simp: pause_def resume_def change_state_def start_timer_def emit_def)
  have w: "timeouts cfg n (pause t) = Inr (pause t)"
    by (rule timeouts_stopped[OF e])
  have x: "\<exists>p. timeouts cfg n (pause t) = Inr p \<and>
            current_state p = PAUSED \<and>
            remaining_seconds p = remaining_seconds t \<and>
            current_session p = current_session t \<and>
            current_state (resume p) = current_state t \<and>
            remaining_seconds (resume p) = remaining_seconds t \<and>
            current_session (resume p) = current_session t \<and>
            qt_timer_active (resume p)"
    by (rule exI[of _ "pause t"]) (intro conjI w a c d f g h i)
  show ?thesis
    by (intro conjI a b c d e f g h w x)
qed

theorem pause_resume_roundtrip_witness:
  "current_state ex_work \<in> {WORK, SHORT_BREAK, LONG_BREAK} \<and>
   current_state (resume (pause ex_work)) = WORK \<and>
   remaining_seconds (resume (pause ex_work)) = 1 \<and>
   current_session (resume (pause ex_work)) = 1 \<and>
   \<not> qt_timer_active (pause ex_work) \<and>
   timeouts ex_cfg 5 (pause ex_work) = Inr (pause ex_work)"
proof -
  have h: "current_state ex_work \<in> {WORK, SHORT_BREAK, LONG_BREAK}"
    by (simp add: ex_work_def)
  from pause_resume_roundtrip[OF h, of ex_cfg 5] h show ?thesis
    by (simp add: ex_work_def)
qed

section \<open>Commands in the wrong state\<close>

text \<open>
  Claim C6. In WORK, \<open>SHORT_BREAK\<close>, \<open>LONG_BREAK\<close> and PAUSED, \<open>start_work_session\<close> returns
  the timer it was given: no attribute changes, the \<open>QTimer\<close> is left as it was and
  nothing is added to the log of emitted signals.
\<close>

theorem start_work_session_noop:
  assumes "current_state t \<in> {WORK, SHORT_BREAK, LONG_BREAK, PAUSED}"
  shows "start_work_session cfg t = t"
  using assms by (auto simp: start_work_session_def)

theorem start_work_session_noop_witness:
  "current_state ex_paused \<in> {WORK, SHORT_BREAK, LONG_BREAK, PAUSED} \<and>
   start_work_session ex_cfg ex_paused = ex_paused"
proof -
  have h: "current_state ex_paused \<in> {WORK, SHORT_BREAK, LONG_BREAK, PAUSED}"
    by (simp add: ex_paused_def)
  from start_work_session_noop[OF h] h show ?thesis
    by simp
qed

section \<open>Countdown exhaustion\<close>

text \<open>
  Claim C2. From a timer in WORK with one second left, under a configuration whose
  \<open>sessions_until_long_break\<close> is not zero, one tick sets \<open>remaining_seconds\<close> to 0 and
  emits \<open>time_changed(0)\<close>, then runs the completion handling on that timer: it emits
  \<open>session_completed(WORK)\<close> once, raises \<open>current_session\<close> by one and enters a break
  state within the same call. The signals added are exactly \<open>time_changed(0)\<close>,
  \<open>session_completed(WORK)\<close>, \<open>state_changed\<close> of the break state and \<open>time_changed\<close>
  of the break's duration (as a C \<open>int\<close>), so the state never passes through IDLE.
\<close>

theorem work_exhaustion:
  assumes "current_state t = WORK" and "remaining_seconds t = 1"
    and "sessions_until_long_break cfg \<noteq> 0"
  shows "\<exists>t' b. tick cfg t = Inr t' \<and>
           tick cfg t =
             timer_finished cfg (emit (time_changed 0) (t\<lparr>remaining_seconds := 0\<rparr>)) \<and>
           (b = SHORT_BREAK \<or> b = LONG_BREAK) \<and>
           current_state t' = b \<and>
           current_session t' = current_session t + 1 \<and>
           emitted t' =
             emitted t @ [time_changed 0, session_completed WORK, state_changed b,
                          time_changed (c_int (remaining_seconds t'))] \<and>
           qt_timer_active t'"
  using assms
  by (auto simp: tick_def timer_finished_def start_break_def Let_def change_state_def
        start_timer_def emit_def)

theorem work_exhaustion_witness:
  "current_state ex_work = WORK \<and> remaining_seconds ex_work = 1 \<and>
   sessions_until_long_break ex_cfg \<noteq> 0 \<and>
   (\<exists>t' b. tick ex_cfg ex_work = Inr t' \<and>
      tick ex_cfg ex_work =
        timer_finished ex_cfg (emit (time_changed 0) (ex_work\<lparr>remaining_seconds := 0\<rparr>)) \<and>
      (b = SHORT_BREAK \<or> b = LONG_BREAK) \<and>
      current_state t' = b \<and>
      current_session t' = current_session ex_work + 1 \<and>
      emitted t' =
        emitted ex_work @ [time_changed 0, session_completed WORK, state_changed b,
                           time_changed (c_int (remaining_seconds t'))] \<and>
      qt_timer_active t')"
proof -
  have h1: "current_state ex_work = WORK" by (simp add: ex_work_def)
  have h2: "remaining_seconds ex_work = 1" by (simp add: ex_work_def)
  have h3: "sessions_until_long_break ex_cfg \<noteq> 0" by (simp add: ex_cfg_def)
  show ?thesis
    by (intro conjI h1 h2 h3 work_exhaustion[OF h1 h2 h3])
qed

text \<open>
  Claim C7. From a timer in \<open>SHORT_BREAK\<close> or \<open>LONG_BREAK\<close> with one second left, one tick
  ends in IDLE having emitted \<open>time_changed(0)\<close>, \<open>state_changed(IDLE)\<close> and
  \<open>session_completed\<close> of that break state, once each and nothing else;
  \<open>current_session\<close> is unchanged. The \<open>QTimer\<close> is stopped, so the timeouts that
  follow leave the timer as it is: the core starts no work session by itself.
\<close>

theorem break_exhaustion:
  assumes "current_state t \<in> {SHORT_BREAK, LONG_BREAK}" and "remaining_seconds t = 1"
  shows "\<exists>t'. tick cfg t = Inr t' \<and>
           current_state t' = IDLE \<and>
           emitted t' =
             emitted t @ [time_changed 0, state_changed IDLE,
                          session_completed (current_state t)] \<and>
           current_session t' = current_session t \<and>
           remaining_seconds t' = 0 \<and>
           \<not> qt_timer_active t' \<and>
           timeout cfg t' = Inr t'"
  using assms
  by (auto simp: tick_def timer_finished_def Let_def change_state_def emit_def timeout_def)

theorem break_exhaustion_witness:
  "current_state ex_short \<in> {SHORT_BREAK, LONG_BREAK} \<and> remaining_seconds ex_short = 1 \<and>
   (\<exists>t'. tick ex_cfg ex_short = Inr t' \<and>
      current_state t' = IDLE \<and>
      emitted t' =
        emitted ex_short @ [time_changed 0, state_changed IDLE,
                            session_completed (current_state ex_short)] \<and>
      current_session t' = current_session ex_short \<and>
      remaining_seconds t' = 0 \<and>
      \<not> qt_timer_active t' \<and>
      timeout ex_cfg t' = Inr t')"
proof -
  have h1: "current_state ex_short \<in> {SHORT_BREAK, LONG_BREAK}" by (simp add: ex_short_def)
  have h2: "remaining_seconds ex_short = 1" by (simp add: ex_short_def)
  show ?thesis
    by (intro conjI h1 h2 break_exhaustion[OF h1 h2])
qed

section \<open>The controller's dispatch\<close>

text \<open>
  Claim C8. The timer a controller is left with is decided by the timer's current state
  alone. \<open>start_or_resume\<close>: the result of \<open>start_work_session\<close> in IDLE, of \<open>resume\<close>
  in PAUSED, and the timer untouched otherwise. \<open>pause_or_resume\<close>: the result of
  \<open>pause\<close> in WORK, \<open>SHORT_BREAK\<close> and \<open>LONG_BREAK\<close>, of \<open>resume\<close> in PAUSED, and the timer
  untouched otherwise. Beyond the delegated call the controller only writes to its
  logger.
\<close>

theorem controller_dispatch:
  "timer (start_or_resume cfg c) =
     (case current_state (timer c) of
        IDLE \<Rightarrow> start_work_session cfg (timer c)
      | PAUSED \<Rightarrow> resume (timer c)
      | WORK \<Rightarrow> timer c | SHORT_BREAK \<Rightarrow> timer c | LONG_BREAK \<Rightarrow> timer c) \<and>
   timer (pause_or_resume c) =
     (case current_state (timer c) of
        WORK \<Rightarrow> pause (timer c) | SHORT_BREAK \<Rightarrow> pause (timer c)
      | LONG_BREAK \<Rightarrow> pause (timer c)
      | PAUSED \<Rightarrow> resume (timer c)
      | IDLE \<Rightarrow> timer c)"
  by (simp add: start_or_resume_def pause_or_resume_def log_msg_def Let_def
        split: TimerState.split)

section \<open>The paused timer remembers a counting state\<close>

lemma step_paused_inv:
  assumes "paused_inv t" and "step cfg c t = Inr t'"
  shows "paused_inv t'"
  using assms
  by (cases c) (auto simp: paused_inv_def counting_def all_defs Let_def split: if_splits)

lemma run_paused_inv:
  "paused_inv t \<Longrightarrow> run cfg t cs = Inr t' \<Longrightarrow> paused_inv t'"
proof (induction cs arbitrary: t)
  case Nil
  then show ?case by simp
next
  case (Cons c cs)
  then show ?case
    by (auto split: sum.splits dest: step_paused_inv)
qed

text \<open>
  Claim C10. In every timer reached from the initial one by any sequence of method calls,
  ticks, controller intents and break extensions, \<open>current_state = PAUSED\<close> implies that
  \<open>previous_state\<close> is WORK, \<open>SHORT_BREAK\<close> or \<open>LONG_BREAK\<close>; so \<open>resume\<close> puts the timer into
  that counting state, never into IDLE or PAUSED.
\<close>

theorem paused_remembers_counting_state:
  assumes "run cfg PomodoroTimer_init cs = Inr t" and "current_state t = PAUSED"
  shows "previous_state t \<in> {WORK, SHORT_BREAK, LONG_BREAK} \<and>
         current_state (resume t) = previous_state t \<and>
         current_state (resume t) \<in> {WORK, SHORT_BREAK, LONG_BREAK} \<and>
         current_state (resume t) \<noteq> IDLE \<and>
         current_state (resume t) \<noteq> PAUSED"
proof -
  have "paused_inv PomodoroTimer_init"
    by (simp add: paused_inv_def PomodoroTimer_init_def)
  with assms(1) have "paused_inv t"
    by (rule run_paused_inv[rotated])
  with assms(2) have c: "counting (previous_state t)"
    by (simp add: paused_inv_def)
  moreover from assms(2) c have "current_state (resume t) = previous_state t"
    by (auto simp: resume_def change_state_def start_timer_def emit_def)
  ultimately show ?thesis
    by (auto simp: counting_def)
qed

theorem paused_remembers_counting_state_witness:
  "run ex_cfg PomodoroTimer_init [StartWorkSession, Pause] = Inr ex_paused \<and>
   current_state ex_paused = PAUSED \<and>
   previous_state ex_paused = WORK \<and>
   current_state (resume ex_paused) = WORK"
proof -
  have h1: "run ex_cfg PomodoroTimer_init [StartWorkSession, Pause] = Inr ex_paused"
    by (simp add: ex_cfg_def ex_paused_def PomodoroTimer_init_def all_defs)
  have h2: "current_state ex_paused = PAUSED" by (simp add: ex_paused_def)
  from paused_remembers_counting_state[OF h1 h2] h1 h2 show ?thesis
    by (simp add: ex_paused_def)
qed

section \<open>The long-break cadence\<close>

text \<open>
  Away from \<open>reset\<close>, \<open>current_session\<close> and the number of emitted
  \<open>session_completed(WORK)\<close> signals move together, and the latter never decreases.
\<close>

lemma step_session_count:
  assumes "c \<noteq> Reset" and "step cfg c t = Inr t'"
  shows "current_session t' - int (completed_work t') = current_session t - int (completed_work t)"
  using assms
  by (cases c) (auto simp: completed_work_def all_defs Let_def split: if_splits)

lemma run_session_count:
  "Reset \<notin> set cs \<Longrightarrow> run cfg t cs = Inr t' \<Longrightarrow>
   current_session t' - int (completed_work t') = current_session t - int (completed_work t)"
proof (induction cs arbitrary: t)
  case Nil
  then show ?case by simp
next
  case (Cons c cs)
  from Cons.prems obtain t1 where s: "step cfg c t = Inr t1" and r: "run cfg t1 cs = Inr t'"
    by (auto split: sum.splits)
  from Cons.prems have "c \<noteq> Reset" and "Reset \<notin> set cs" by auto
  with Cons.IH[OF _ r] step_session_count[OF _ s] show ?case by simp
qed

lemma step_completed_mono:
  assumes "step cfg c t = Inr t'"
  shows "completed_work t \<le> completed_work t'"
  using assms
  by (cases c) (auto simp: completed_work_def all_defs Let_def split: if_splits)

lemma run_completed_mono:
  "run cfg t cs = Inr t' \<Longrightarrow> completed_work t \<le> completed_work t'"
proof (induction cs arbitrary: t)
  case Nil
  then show ?case by simp
next
  case (Cons c cs)
  from Cons.prems obtain t1 where s: "step cfg c t = Inr t1" and r: "run cfg t1 cs = Inr t'"
    by (auto split: sum.splits)
  from step_completed_mono[OF s] Cons.IH[OF r] show ?case by simp
qed

lemma tick_work_finish:
  assumes "current_state t = WORK" and "remaining_seconds t \<le> 1"
    and "sessions_until_long_break cfg \<noteq> 0"
  shows "\<exists>t'. tick cfg t = Inr t' \<and>
           current_session t' = current_session t + 1 \<and>
           completed_work t' = completed_work t + 1 \<and>
           current_state t' =
             (if current_session t > 0 \<and> current_session t mod sessions_until_long_break cfg = 0
              then LONG_BREAK else SHORT_BREAK)"
  using assms
  by (auto simp: completed_work_def all_defs Let_def)

text \<open>
  Claim C1. Start from a timer whose \<open>current_session\<close> is 1 (the initial timer, or any
  timer just reset) and run any sequence of steps without \<open>reset\<close>, under a configuration
  whose \<open>sessions_until_long_break\<close> is not zero. When a work session then completes by
  countdown exhaustion, let \<open>k\<close> be the number of work sessions completed since the
  start, this one included. Then \<open>k \<ge> 1\<close>, \<open>current_session\<close> has been raised to
  \<open>k + 1\<close> before \<open>start_break\<close> reads it, and the break entered is \<open>LONG_BREAK\<close> if
  \<open>k > 0\<close> and \<open>k mod sessions_until_long_break = 0\<close>, and \<open>SHORT_BREAK\<close> otherwise. With
  four sessions until the long break: short after completions 1, 2, 3, 5, 6, 7 and long
  after completions 4 and 8.
\<close>

theorem long_break_every_nth_completion:
  assumes nz: "sessions_until_long_break cfg \<noteq> 0"
    and fresh: "current_session t0 = 1"
    and noreset: "Reset \<notin> set cs"
    and reach: "run cfg t0 cs = Inr t"
    and work: "current_state t = WORK"
    and due: "remaining_seconds t \<le> 1"
  shows "\<exists>t' k. tick cfg t = Inr t' \<and>
           k = int (completed_work t') - int (completed_work t0) \<and>
           k \<ge> 1 \<and>
           current_session t' = k + 1 \<and>
           current_state t' =
             (if k > 0 \<and> k mod sessions_until_long_break cfg = 0
              then LONG_BREAK else SHORT_BREAK) \<and>
           (sessions_until_long_break cfg = 4 \<longrightarrow>
              (k \<in> {1, 2, 3, 5, 6, 7} \<longrightarrow> current_state t' = SHORT_BREAK) \<and>
              (k \<in> {4, 8} \<longrightarrow> current_state t' = LONG_BREAK))"
proof -
  from tick_work_finish[OF work due nz] obtain t' where
    t: "tick cfg t = Inr t'" and
    s: "current_session t' = current_session t + 1" and
    w: "completed_work t' = completed_work t + 1" and
    b: "current_state t' =
          (if current_session t > 0 \<and> current_session t mod sessions_until_long_break cfg = 0
           then LONG_BREAK else SHORT_BREAK)"
    by blast
  define k where "k = int (completed_work t') - int (completed_work t0)"
  from run_session_count[OF noreset reach] fresh w
  have ks: "current_session t = k" by (simp add: k_def)
  from run_completed_mono[OF reach] w have k1: "k \<ge> 1" by (simp add: k_def)
  from s ks have s': "current_session t' = k + 1" by simp
  from b ks have kind: "current_state t' =
      (if k > 0 \<and> k mod sessions_until_long_break cfg = 0 then LONG_BREAK else SHORT_BREAK)"
    by simp
  have four: "sessions_until_long_break cfg = 4 \<longrightarrow>
      (k \<in> {1, 2, 3, 5, 6, 7} \<longrightarrow> current_state t' = SHORT_BREAK) \<and>
      (k \<in> {4, 8} \<longrightarrow> current_state t' = LONG_BREAK)"
    using kind by auto
  show ?thesis
    apply (rule exI[of _ t'])
    apply (rule exI[of _ k])
    apply (intro conjI t k1 s' kind four)
    apply (rule k_def)
    done
qed

theorem long_break_every_nth_completion_witness:
  "sessions_until_long_break ex_cfg \<noteq> 0 \<and>
   current_session PomodoroTimer_init = 1 \<and>
   Reset \<notin> set [StartWorkSession] \<and>
   run ex_cfg PomodoroTimer_init [StartWorkSession] = Inr ex_work \<and>
   current_state ex_work = WORK \<and> remaining_seconds ex_work \<le> 1 \<and>
   (\<exists>t'. tick ex_cfg ex_work = Inr t' \<and>
      int (completed_work t') - int (completed_work PomodoroTimer_init) = 1 \<and>
      current_state t' = SHORT_BREAK) \<and>
   Reset \<notin> set (pomodoro_cycle @ pomodoro_cycle @ pomodoro_cycle @ [StartWorkSession]) \<and>
   run ex_cfg PomodoroTimer_init
     (pomodoro_cycle @ pomodoro_cycle @ pomodoro_cycle @ [StartWorkSession]) = Inr ex_work4 \<and>
   current_state ex_work4 = WORK \<and> remaining_seconds ex_work4 \<le> 1 \<and>
   (\<exists>t'. tick ex_cfg ex_work4 = Inr t' \<and>
      int (completed_work t') - int (completed_work PomodoroTimer_init) = 4 \<and>
      current_state t' = LONG_BREAK)"
proof -
  have nz: "sessions_until_long_break ex_cfg \<noteq> 0" by (simp add: ex_cfg_def)
  have n4: "sessions_until_long_break ex_cfg = 4" by (simp add: ex_cfg_def)
  have fresh: "current_session PomodoroTimer_init = 1" by (simp add: PomodoroTimer_init_def)
  have c0: "completed_work PomodoroTimer_init = 0"
    by (simp add: completed_work_def PomodoroTimer_init_def)
  have nr1: "Reset \<notin> set [StartWorkSession]" by simp
  have r1: "run ex_cfg PomodoroTimer_init [StartWorkSession] = Inr ex_work"
    by (simp add: ex_cfg_def ex_work_def PomodoroTimer_init_def all_defs)
  have w1: "current_state ex_work = WORK" by (simp add: ex_work_def)
  have d1: "remaining_seconds ex_work \<le> 1" by (simp add: ex_work_def)
  have t1: "tick ex_cfg ex_work = Inr ex_short"
    by (simp add: ex_cfg_def ex_work_def ex_short_def all_defs)
  have k1: "int (completed_work ex_short) - int (completed_work PomodoroTimer_init) = 1"
    by (simp add: completed_work_def ex_short_def PomodoroTimer_init_def)
  have first: "\<exists>t'. tick ex_cfg ex_work = Inr t' \<and>
      int (completed_work t') - int (completed_work PomodoroTimer_init) = 1 \<and>
      current_state t' = SHORT_BREAK"
  proof -
    from long_break_every_nth_completion[OF nz fresh nr1 r1 w1 d1]
    obtain t' k where a: "tick ex_cfg ex_work = Inr t'"
      and b: "k = int (completed_work t') - int (completed_work PomodoroTimer_init)"
      and c: "current_state t' =
                (if k > 0 \<and> k mod sessions_until_long_break ex_cfg = 0
                 then LONG_BREAK else SHORT_BREAK)"
      by blast
    from a t1 have e: "t' = ex_short" by simp
    from b e k1 have k: "k = 1" by simp
    from c k n4 have "current_state t' = SHORT_BREAK" by simp
    with a b k show ?thesis by blast
  qed
  have nr4: "Reset \<notin> set (pomodoro_cycle @ pomodoro_cycle @ pomodoro_cycle @ [StartWorkSession])"
    by (simp add: pomodoro_cycle_def)
  have r4: "run ex_cfg PomodoroTimer_init
             (pomodoro_cycle @ pomodoro_cycle @ pomodoro_cycle @ [StartWorkSession]) =
           Inr ex_work4"
    by code_simp
  have w4: "current_state ex_work4 = WORK" by (simp add: ex_work4_def)
  have d4: "remaining_seconds ex_work4 \<le> 1" by (simp add: ex_work4_def)
  have t4: "\<exists>t'. tick ex_cfg ex_work4 = Inr t' \<and> completed_work t' = 4"
    by (simp add: ex_cfg_def ex_work4_def completed_work_def all_defs)
  have fourth: "\<exists>t'. tick ex_cfg ex_work4 = Inr t' \<and>
      int (completed_work t') - int (completed_work PomodoroTimer_init) = 4 \<and>
      current_state t' = LONG_BREAK"
  proof -
    from long_break_every_nth_completion[OF nz fresh nr4 r4 w4 d4]
    obtain t' k where a: "tick ex_cfg ex_work4 = Inr t'"
      and b: "k = int (completed_work t') - int (completed_work PomodoroTimer_init)"
      and c: "current_state t' =
                (if k > 0 \<and> k mod sessions_until_long_break ex_cfg = 0
                 then LONG_BREAK else SHORT_BREAK)"
      by blast
    from t4 a have "completed_work t' = 4" by auto
    with b c0 have k: "k = 4" by simp
    from c k n4 have "current_state t' = LONG_BREAK" by simp
    with a b k show ?thesis by blast
  qed
  show ?thesis
    by (intro conjI nz fresh nr1 r1 w1 d1 first nr4 r4 w4 d4 fourth)
qed

section \<open>The time display\<close>

lemma digit_char_props:
  assumes "d < 10"
  shows "is_digit (digit_char d)" and "digit_of (digit_char d) = d"
proof -
  from assms have "d = 0 \<or> d = 1 \<or> d = 2 \<or> d = 3 \<or> d = 4 \<or> d = 5 \<or> d = 6 \<or> d = 7 \<or> d = 8 \<or> d = 9"
    by arith
  then show "is_digit (digit_char d)" and "digit_of (digit_char d) = d"
    by (auto simp: digit_char_def is_digit_def digit_of_def)
qed

lemma dec_value_snoc: "dec_value (xs @ [c]) = 10 * dec_value xs + digit_of c"
  by (simp add: dec_value_def)

lemma decimal_digits: "list_all is_digit (decimal n)"
proof (induction n rule: decimal.induct)
  case (1 n)
  show ?case
  proof (cases "n < 10")
    case True
    then show ?thesis by (subst decimal.simps) (simp add: digit_char_props)
  next
    case False
    with 1 show ?thesis by (subst decimal.simps) (simp add: digit_char_props)
  qed
qed

lemma dec_value_decimal: "dec_value (decimal n) = n"
proof (induction n rule: decimal.induct)
  case (1 n)
  show ?case
  proof (cases "n < 10")
    case True
    then show ?thesis
      by (subst decimal.simps) (simp add: dec_value_def digit_char_props)
  next
    case False
    with 1 show ?thesis
      by (subst decimal.simps) (simp add: dec_value_snoc digit_char_props)
  qed
qed

lemma length_decimal_pos: "0 < length (decimal n)"
  by (subst decimal.simps) simp

lemma length_decimal_small: "n < 100 \<Longrightarrow> length (decimal n) \<le> 2"
proof -
  assume a: "n < 100"
  show ?thesis
  proof (cases "n < 10")
    case True
    then show ?thesis by (subst decimal.simps) simp
  next
    case False
    from a have "n div 10 < 10" by simp
    then have "decimal (n div 10) = [digit_char (n div 10)]"
      by (subst decimal.simps) simp
    with False show ?thesis by (subst decimal.simps) simp
  qed
qed

lemma dec_value_zeros: "dec_value (replicate k (CHR ''0'') @ s) = dec_value s"
proof -
  have "foldl (\<lambda>a c. 10 * a + digit_of c) 0 (replicate k (CHR ''0'')) = 0"
    by (induction k) (simp_all add: digit_of_def)
  then show ?thesis by (simp add: dec_value_def)
qed

lemma zero_is_digit: "is_digit (CHR ''0'')"
  by (simp add: is_digit_def)

lemma format_02d_nonneg:
  assumes "0 \<le> n"
  shows "list_all is_digit (format_02d n)"
    and "int (dec_value (format_02d n)) = n"
    and "2 \<le> length (format_02d n)"
    and "n < 100 \<Longrightarrow> length (format_02d n) = 2"
proof -
  from assms have f: "format_02d n = replicate (2 - length (decimal (nat n))) (CHR ''0'') @ decimal (nat n)"
    by (simp add: format_02d_def zfill_def)
  have d: "\<forall>c\<in>set (decimal (nat n)). is_digit c"
    using decimal_digits[of "nat n"] by (simp add: list_all_iff)
  then show "list_all is_digit (format_02d n)"
    by (auto simp: f zero_is_digit list_all_iff)
  from assms show "int (dec_value (format_02d n)) = n"
    by (simp add: f dec_value_zeros dec_value_decimal)
  show "2 \<le> length (format_02d n)"
    by (simp add: f)
  assume "n < 100"
  with assms have "nat n < 100" by simp
  from length_decimal_small[OF this] length_decimal_pos[of "nat n"]
  show "length (format_02d n) = 2"
    by (simp add: f)
qed

text \<open>
  The decimal digits of a number are the only digit string without a leading zero that
  reads as that number, so a two-digit field is determined by the number it shows.
\<close>

lemma is_digit_props:
  assumes "is_digit c"
  shows "digit_of c < 10" and "digit_char (digit_of c) = c"
    and "c \<noteq> CHR ''0'' \<Longrightarrow> 1 \<le> digit_of c"
  using assms by (auto simp: is_digit_def digit_of_def digit_char_def)

lemma decimal_small: "n < 10 \<Longrightarrow> decimal n = [digit_char n]"
  by (subst decimal.simps) simp

lemma decimal_large: "10 \<le> n \<Longrightarrow> decimal n = decimal (n div 10) @ [digit_char (n mod 10)]"
  by (subst decimal.simps) simp

lemma hd_decimal: "1 \<le> n \<Longrightarrow> hd (decimal n) \<noteq> CHR ''0''"
proof (induction n rule: decimal.induct)
  case (1 n)
  show ?case
  proof (cases "n < 10")
    case True
    have "digit_char n \<noteq> CHR ''0''"
    proof
      assume "digit_char n = CHR ''0''"
      then have "digit_of (digit_char n) = 0" by (simp add: digit_of_def)
      with digit_char_props(2)[OF True] "1.prems" show False by simp
    qed
    with True show ?thesis
      by (simp add: decimal_small)
  next
    case False
    then have "1 \<le> n div 10" by simp
    with 1 False have "hd (decimal (n div 10)) \<noteq> CHR ''0''" by simp
    moreover have "decimal (n div 10) \<noteq> []"
      using length_decimal_pos[of "n div 10"] by auto
    ultimately show ?thesis
      using False by (simp add: decimal_large)
  qed
qed

lemma decimal_canonical:
  "s \<noteq> [] \<Longrightarrow> list_all is_digit s \<Longrightarrow> hd s \<noteq> CHR ''0'' \<Longrightarrow>
   decimal (dec_value s) = s \<and> 1 \<le> dec_value s"
proof (induction s rule: rev_induct)
  case Nil
  then show ?case by simp
next
  case (snoc c xs)
  from snoc.prems have dc: "is_digit c" by simp
  show ?case
  proof (cases "xs = []")
    case True
    with snoc.prems have "c \<noteq> CHR ''0''" by simp
    with is_digit_props[OF dc] True show ?thesis
      by (simp add: dec_value_def decimal_small)
  next
    case False
    with snoc.prems have "list_all is_digit xs" and "hd xs \<noteq> CHR ''0''" by simp_all
    with snoc.IH False have ih: "decimal (dec_value xs) = xs" and pos: "1 \<le> dec_value xs"
      by simp_all
    from is_digit_props(1)[OF dc]
    have d: "(10 * dec_value xs + digit_of c) div 10 = dec_value xs"
      and m: "(10 * dec_value xs + digit_of c) mod 10 = digit_of c"
      by simp_all
    from pos have "10 \<le> 10 * dec_value xs + digit_of c" by simp
    from decimal_large[OF this] d m ih is_digit_props(2)[OF dc] pos show ?thesis
      by (simp add: dec_value_snoc)
  qed
qed

lemma two_digits_canonical:
  assumes "list_all is_digit s" and "length s = 2"
  shows "zfill 2 (decimal (dec_value s)) = s"
proof -
  from assms(2) obtain a b where s: "s = [a, b]"
    by (cases s) (auto simp: length_Suc_conv)
  with assms(1) have da: "is_digit a" and db: "is_digit b" by simp_all
  show ?thesis
  proof (cases "a = CHR ''0''")
    case True
    then have "dec_value s = digit_of b"
      by (simp add: s dec_value_def digit_of_def)
    with is_digit_props(1,2)[OF db] True show ?thesis
      by (simp add: s decimal_small zfill_def)
  next
    case False
    with s assms(1) have "decimal (dec_value s) = s"
      using decimal_canonical[of s] by simp
    with assms(2) show ?thesis by (simp add: zfill_def)
  qed
qed

lemma two_digit_field_unique:
  assumes "two_digit_field v s"
  shows "s = format_02d v"
proof -
  from assms have dg: "list_all is_digit s" and val: "int (dec_value s) = v"
    and len: "2 \<le> length s" and lead: "2 < length s \<longrightarrow> hd s \<noteq> CHR ''0''"
    by (simp_all add: two_digit_field_def)
  from val have f: "format_02d v = zfill 2 (decimal (dec_value s))"
    by (auto simp: format_02d_def)
  show ?thesis
  proof (cases "length s = 2")
    case True
    from two_digits_canonical[OF dg True] f show ?thesis by simp
  next
    case False
    with len lead have "s \<noteq> []" and "hd s \<noteq> CHR ''0''" by auto
    with dg have "decimal (dec_value s) = s"
      using decimal_canonical[of s] by simp
    with len f show ?thesis by (simp add: zfill_def)
  qed
qed

lemma two_digit_field_format:
  assumes "0 \<le> v"
  shows "two_digit_field v (format_02d v)"
proof -
  from assms have f: "format_02d v = zfill 2 (decimal (nat v))"
    by (simp add: format_02d_def)
  have lead: "2 < length (format_02d v) \<longrightarrow> hd (format_02d v) \<noteq> CHR ''0''"
  proof
    assume l: "2 < length (format_02d v)"
    then have l2: "2 < length (decimal (nat v))"
      by (simp add: f zfill_def split: if_splits)
    then have e: "format_02d v = decimal (nat v)"
      by (simp add: f zfill_def)
    have "1 \<le> nat v"
    proof (rule ccontr)
      assume "\<not> 1 \<le> nat v"
      then have "nat v < 10" by simp
      from decimal_small[OF this] l2 show False by simp
    qed
    from hd_decimal[OF this] e show "hd (format_02d v) \<noteq> CHR ''0''" by simp
  qed
  with format_02d_nonneg(1,2,3)[OF assms] show ?thesis
    by (simp add: two_digit_field_def)
qed

text \<open>
  Claim C9. For \<open>remaining_seconds \<ge> 0\<close>, \<open>get_time_display\<close> returns a minutes field,
  a colon and a seconds field. Both fields consist of decimal digits only; read as
  numbers they are \<open>remaining_seconds div 60\<close> and \<open>remaining_seconds mod 60\<close>. The
  seconds field has exactly two characters; the minutes field has exactly two below 100
  minutes and otherwise as many as the number has digits, with no leading zero: each
  field is the number zero-padded to two digits, and no other pair of such fields gives
  the string returned. 65 seconds are shown as \<open>01:05\<close>, 0 seconds as \<open>00:00\<close> and 7200
  seconds as \<open>120:00\<close>.
\<close>

theorem get_time_display_mm_ss:
  assumes "0 \<le> remaining_seconds t"
  shows "\<exists>mm ss. get_time_display t = mm @ '':'' @ ss \<and>
           list_all is_digit mm \<and> list_all is_digit ss \<and>
           2 \<le> length mm \<and> length ss = 2 \<and>
           int (dec_value mm) = remaining_seconds t div 60 \<and>
           int (dec_value ss) = remaining_seconds t mod 60 \<and>
           (remaining_seconds t < 6000 \<longrightarrow> length mm = 2) \<and>
           (2 < length mm \<longrightarrow> hd mm \<noteq> CHR ''0'') \<and>
           two_digit_field (remaining_seconds t div 60) mm \<and>
           two_digit_field (remaining_seconds t mod 60) ss \<and>
           (\<forall>mm' ss'. two_digit_field (remaining_seconds t div 60) mm' \<and>
                       two_digit_field (remaining_seconds t mod 60) ss' \<longrightarrow>
                       get_time_display t = mm' @ '':'' @ ss') \<and>
           (remaining_seconds t = 65 \<longrightarrow> get_time_display t = ''01:05'') \<and>
           (remaining_seconds t = 0 \<longrightarrow> get_time_display t = ''00:00'') \<and>
           (remaining_seconds t = 7200 \<longrightarrow> get_time_display t = ''120:00'')"
proof -
  define m where "m = remaining_seconds t div 60"
  define s where "s = remaining_seconds t mod 60"
  from assms have m0: "0 \<le> m" by (simp add: m_def)
  have s0: "0 \<le> s" and s60: "s < 100" by (simp_all add: s_def)
  have g: "get_time_display t = format_02d m @ '':'' @ format_02d s"
    by (simp add: get_time_display_def m_def s_def Let_def)
  have small: "remaining_seconds t < 6000 \<longrightarrow> length (format_02d m) = 2"
  proof
    assume "remaining_seconds t < 6000"
    then have "m < 100" by (simp add: m_def)
    with format_02d_nonneg(4)[OF m0] show "length (format_02d m) = 2" by simp
  qed
  have fm: "two_digit_field (remaining_seconds t div 60) (format_02d m)"
    using two_digit_field_format[OF m0] by (simp add: m_def)
  have fs: "two_digit_field (remaining_seconds t mod 60) (format_02d s)"
    using two_digit_field_format[OF s0] by (simp add: s_def)
  from fm have lead: "2 < length (format_02d m) \<longrightarrow> hd (format_02d m) \<noteq> CHR ''0''"
    by (simp add: two_digit_field_def)
  have uniq: "\<forall>mm' ss'. two_digit_field (remaining_seconds t div 60) mm' \<and>
                       two_digit_field (remaining_seconds t mod 60) ss' \<longrightarrow>
                       get_time_display t = mm' @ '':'' @ ss'"
  proof (intro allI impI)
    fix mm' ss'
    assume a: "two_digit_field (remaining_seconds t div 60) mm' \<and>
               two_digit_field (remaining_seconds t mod 60) ss'"
    then have "mm' = format_02d m" and "ss' = format_02d s"
      by (simp_all add: m_def s_def two_digit_field_unique)
    with g show "get_time_display t = mm' @ '':'' @ ss'" by simp
  qed
  have e65: "remaining_seconds t = 65 \<longrightarrow> get_time_display t = ''01:05''"
    by (simp add: get_time_display_def format_02d_def zfill_def decimal.simps digit_char_def)
  have e0: "remaining_seconds t = 0 \<longrightarrow> get_time_display t = ''00:00''"
    by (simp add: get_time_display_def format_02d_def zfill_def decimal.simps digit_char_def)
  have e7200: "remaining_seconds t = 7200 \<longrightarrow> get_time_display t = ''120:00''"
    by (simp add: get_time_display_def format_02d_def zfill_def decimal.simps digit_char_def)
  have mv: "int (dec_value (format_02d m)) = remaining_seconds t div 60"
    using format_02d_nonneg(2)[OF m0] by (simp add: m_def)
  have sv: "int (dec_value (format_02d s)) = remaining_seconds t mod 60"
    using format_02d_nonneg(2)[OF s0] by (simp add: s_def)
  show ?thesis
    apply (rule exI[of _ "format_02d m"])
    apply (rule exI[of _ "format_02d s"])
    apply (intro conjI g format_02d_nonneg(1,3)[OF m0] format_02d_nonneg(1)[OF s0]
             format_02d_nonneg(4)[OF s0 s60] small lead fm fs uniq e65 e0 e7200 mv sv)
    done
qed

theorem get_time_display_mm_ss_witness:
  "0 \<le> remaining_seconds ex_65 \<and> remaining_seconds ex_65 = 65 \<and>
   get_time_display ex_65 = ''01:05'' \<and>
   0 \<le> remaining_seconds PomodoroTimer_init \<and> remaining_seconds PomodoroTimer_init = 0 \<and>
   get_time_display PomodoroTimer_init = ''00:00'' \<and>
   0 \<le> remaining_seconds ex_7200 \<and> remaining_seconds ex_7200 = 7200 \<and>
   get_time_display ex_7200 = ''120:00''"
proof -
  have h1: "0 \<le> remaining_seconds ex_65" by (simp add: ex_65_def)
  have e1: "remaining_seconds ex_65 = 65" by (simp add: ex_65_def)
  have h2: "0 \<le> remaining_seconds PomodoroTimer_init" by (simp add: PomodoroTimer_init_def)
  have e2: "remaining_seconds PomodoroTimer_init = 0" by (simp add: PomodoroTimer_init_def)
  have h3: "0 \<le> remaining_seconds ex_7200" by (simp add: ex_7200_def)
  have e3: "remaining_seconds ex_7200 = 7200" by (simp add: ex_7200_def)
  from get_time_display_mm_ss[OF h1] e1 have d1: "get_time_display ex_65 = ''01:05''"
    by blast
  from get_time_display_mm_ss[OF h2] e2 have d2: "get_time_display PomodoroTimer_init = ''00:00''"
    by blast
  from get_time_display_mm_ss[OF h3] e3 have d3: "get_time_display ex_7200 = ''120:00''"
    by blast
  show ?thesis
    by (intro conjI h1 e1 d1 h2 e2 d2 h3 e3 d3)
qed

section \<open>Which commands announce the time\<close>




end
